theory Spec2Isabelle
  imports Main "HOL-Library.Word"
begin

section \<open>HeroForge AI: the image-edit workflow\<close>

text \<open>
  The development embeds the core of the application: the helper
  \<^verbatim>\<open>extractBase64Data\<close> and the client \<^verbatim>\<open>editImageWithGemini\<close> of
  \<^verbatim>\<open>services/geminiService.ts\<close>, and the handlers \<^verbatim>\<open>handleFileUpload\<close>,
  \<^verbatim>\<open>handleGenerate\<close> and \<^verbatim>\<open>handleReset\<close> of the \<^verbatim>\<open>App\<close> component.

  A JavaScript string is a \<open>string\<close>: a list of characters, one per code unit, for
  strings whose code units are below 256 (Basic Latin and Latin-1).
  A value that may be \<^verbatim>\<open>null\<close> or \<^verbatim>\<open>undefined\<close> is an \<open>option\<close>, \<open>None\<close> standing
  for both. A thrown \<^verbatim>\<open>Error\<close> is the \<open>Inl\<close> of a sum and carries the error's
  \<^verbatim>\<open>message\<close>.
\<close>

subsection \<open>The JavaScript operations the code relies on\<close>

text \<open>
  \<^verbatim>\<open>s.split(sep)\<close> for a separator of one character: the pieces of \<open>s\<close> between
  the occurrences of the separator, in order. The empty string gives one empty piece.
\<close>

fun split :: "char \<Rightarrow> string \<Rightarrow> string list" where
  "split sep [] = [[]]"
| "split sep (c # cs) =
     (if c = sep then [] # split sep cs
      else (case split sep cs of
              [] \<Rightarrow> [[c]]
            | piece # pieces \<Rightarrow> (c # piece) # pieces))"

text \<open>\<^verbatim>\<open>xs[i]\<close>: the element at index \<open>i\<close>, \<^verbatim>\<open>undefined\<close> out of range.\<close>

fun index :: "'a list \<Rightarrow> nat \<Rightarrow> 'a option" where
  "index [] i = None"
| "index (x # xs) 0 = Some x"
| "index (x # xs) (Suc i) = index xs i"

text \<open>
  Truthiness of a value that is a string, \<^verbatim>\<open>null\<close> or \<^verbatim>\<open>undefined\<close>: only a
  non-empty string is truthy. \<open>orElse v d\<close> is \<^verbatim>\<open>v || d\<close>.
\<close>

definition truthy :: "string option \<Rightarrow> bool" where
  "truthy v = (case v of None \<Rightarrow> False | Some s \<Rightarrow> s \<noteq> [])"

definition orElse :: "string option \<Rightarrow> string \<Rightarrow> string" where
  "orElse v d = (case v of None \<Rightarrow> d | Some s \<Rightarrow> if s = [] then d else s)"

text \<open>A value spliced into a template literal: \<^verbatim>\<open>undefined\<close> prints as its name.\<close>

definition spliced :: "string option \<Rightarrow> string" where
  "spliced v = (case v of None \<Rightarrow> ''undefined'' | Some s \<Rightarrow> s)"

text \<open>
  \<^verbatim>\<open>s.trim()\<close> removes white space and line terminators from both ends. Among
  the code units below 256 these are tab, line feed, vertical tab, form feed, carriage
  return, space and the no-break space.
\<close>

definition isWhiteSpace :: "char \<Rightarrow> bool" where
  "isWhiteSpace c = (of_char c \<in> {9, 10, 11, 12, 13, 32, 160 :: nat})"

definition trim :: "string \<Rightarrow> string" where
  "trim s = rev (dropWhile isWhiteSpace (rev (dropWhile isWhiteSpace s)))"

subsection \<open>services/geminiService.ts: extractBase64Data\<close>

text \<open>
  \<^verbatim>\<open>export const extractBase64Data = (dataUrl: string): string => {
    return dataUrl.split(',')[1];
  };\<close>
  The result is \<^verbatim>\<open>undefined\<close> (here \<open>None\<close>) when the input has no comma.
\<close>

definition extractBase64Data :: "string \<Rightarrow> string option" where
  "extractBase64Data dataUrl = index (split (CHR '','') dataUrl) 1"

subsection \<open>The generative-image API, as the client sees it\<close>

text \<open>
  The shapes of the vendor SDK that the client reads and writes. Every field the
  code tests for presence is optional. A part carries inline data, text, or neither.
\<close>

record Blob =
  data :: "string option"
  mimeType :: "string option"

record Part =
  inlineData :: "Blob option"
  "text" :: "string option"

record Content =
  parts :: "Part list option"

record Candidate =
  content :: "Content option"

record GenerateContentResponse =
  candidates :: "Candidate list option"

record GenerateContentParameters =
  model :: string
  contents :: Content

text \<open>
  One call of \<^verbatim>\<open>ai.models.generateContent\<close> either resolves to a response
  (possibly \<^verbatim>\<open>null\<close>) or rejects with an error, of which the client reads only the
  \<^verbatim>\<open>message\<close> (possibly missing). The API itself is a parameter of the model: a
  function from the request to the outcome.
\<close>

datatype ApiOutcome =
  Resolved "GenerateContentResponse option"
| Rejected "string option"

type_synonym Api = "GenerateContentParameters \<Rightarrow> ApiOutcome"

subsection \<open>services/geminiService.ts: editImageWithGemini\<close>

text \<open>The argument of \<^verbatim>\<open>generateContent\<close>: the source image, then the instruction.\<close>

definition editRequest :: "string option \<Rightarrow> string \<Rightarrow> string \<Rightarrow> GenerateContentParameters" where
  "editRequest base64Image mime instruction =
     \<lparr>model = ''gemini-2.5-flash-image'',
      contents = \<lparr>parts = Some
        [\<lparr>inlineData = Some \<lparr>data = base64Image, mimeType = Some mime\<rparr>, text = None\<rparr>,
         \<lparr>inlineData = None, text = Some instruction\<rparr>]\<rparr>\<rparr>"

text \<open>
  The loop over \<^verbatim>\<open>content.parts\<close>: \<^verbatim>\<open>generatedImageUrl\<close> starts empty and is set
  from the first part with inline data, where the loop breaks.
\<close>

fun generatedImageUrl :: "Part list \<Rightarrow> string" where
  "generatedImageUrl [] = []"
| "generatedImageUrl (part # rest) =
     (case inlineData part of
        Some blob \<Rightarrow>
          (let base64EncodeString = data blob;
               responseMime = orElse (mimeType blob) ''image/png''
           in ''data:'' @ responseMime @ '';base64,'' @ spliced base64EncodeString)
      | None \<Rightarrow> generatedImageUrl rest)"

text \<open>\<^verbatim>\<open>content.parts?.find(p => p.text)?.text\<close>\<close>

definition textPart :: "Content \<Rightarrow> string option" where
  "textPart c =
     (case parts c of
        None \<Rightarrow> None
      | Some ps \<Rightarrow> (case find (\<lambda>p. truthy (text p)) ps of None \<Rightarrow> None | Some p \<Rightarrow> text p))"

text \<open>
  Reading \<^verbatim>\<open>content.parts\<close> of a candidate without content throws a
  \<^verbatim>\<open>TypeError\<close>, whose message is the engine's; V8's wording is taken here.
\<close>

definition typeErrorMessage :: string where
  "typeErrorMessage = ''Cannot read properties of undefined (reading 'parts')''"

text \<open>
  The body of the \<^verbatim>\<open>try\<close> block, given the outcome of the call: \<open>Inr\<close> the
  returned data URL, \<open>Inl\<close> the \<^verbatim>\<open>message\<close> of what is thrown.
\<close>

definition tryBlock :: "ApiOutcome \<Rightarrow> string option + string" where
  "tryBlock outcome =
     (case outcome of
        Rejected message \<Rightarrow> Inl message
      | Resolved None \<Rightarrow> Inl (Some ''No response candidates returned from Gemini.'')
      | Resolved (Some response) \<Rightarrow>
          (case candidates response of
             None \<Rightarrow> Inl (Some ''No response candidates returned from Gemini.'')
           | Some [] \<Rightarrow> Inl (Some ''No response candidates returned from Gemini.'')
           | Some (candidate # _) \<Rightarrow>
               (case content candidate of
                  None \<Rightarrow> Inl (Some typeErrorMessage)
                | Some c \<Rightarrow>
                    (let url = (case parts c of None \<Rightarrow> [] | Some ps \<Rightarrow> generatedImageUrl ps)
                     in if url = [] then
                          (if truthy (textPart c)
                           then Inl (Some (''Model returned text instead of image: '' @
                                           spliced (textPart c)))
                           else Inl (Some ''Model did not return a valid image.''))
                        else Inr url))))"

text \<open>
  The whole function: the \<^verbatim>\<open>catch\<close> clause rethrows whatever the \<^verbatim>\<open>try\<close> block
  threw as a new \<^verbatim>\<open>Error\<close> with \<^verbatim>\<open>error.message || "Failed to edit image using Gemini."\<close>.
\<close>

definition editImageWithGemini :: "Api \<Rightarrow> string option \<Rightarrow> string \<Rightarrow> string \<Rightarrow> string + string" where
  "editImageWithGemini generateContent base64Image mime instruction =
     (case tryBlock (generateContent (editRequest base64Image mime instruction)) of
        Inl message \<Rightarrow> Inl (orElse message ''Failed to edit image using Gemini.'')
      | Inr url \<Rightarrow> Inr url)"

subsection \<open>Data URLs of uploaded files\<close>

text \<open>The base64 encoding of a byte sequence (RFC 4648, with padding).\<close>

definition alphabet :: string where
  "alphabet = ''ABCDEFGHIJKLMNOPQRSTUVWXYZabcdefghijklmnopqrstuvwxyz0123456789+/''"

definition sextet :: "nat \<Rightarrow> char" where
  "sextet n = alphabet ! (n mod 64)"

fun base64 :: "8 word list \<Rightarrow> string" where
  "base64 [] = []"
| "base64 [a] =
     (let n = unat a * 65536
      in [sextet (n div 262144), sextet (n div 4096), CHR ''='', CHR ''=''])"
| "base64 [a, b] =
     (let n = unat a * 65536 + unat b * 256
      in [sextet (n div 262144), sextet (n div 4096), sextet (n div 64), CHR ''=''])"
| "base64 (a # b # c # rest) =
     (let n = unat a * 65536 + unat b * 256 + unat c
      in [sextet (n div 262144), sextet (n div 4096), sextet (n div 64), sextet n]
         @ base64 rest)"

text \<open>
  Modelled from the spec: \<^verbatim>\<open>toDataUrl\<close> is no function of the repository; the
  component calls the browser's \<^verbatim>\<open>FileReader.readAsDataURL\<close>. Its result for a
  file of the given type and bytes is the data URL of the glossary,
  \<^verbatim>\<open>data:<mimeType>;base64,<payload>\<close>.
\<close>

definition toDataUrl :: "string \<Rightarrow> 8 word list \<Rightarrow> string" where
  "toDataUrl mime bytes = ''data:'' @ mime @ '';base64,'' @ base64 bytes"

subsection \<open>types.ts\<close>

record GeneratedImage =
  imageUrl :: string
  prompt :: string
  timestamp :: int

record AppState =
  originalImage :: "string option"
  originalMimeType :: string
  isGenerating :: bool
  generatedImage :: "GeneratedImage option"
  error :: "string option"

subsection \<open>The App component\<close>

definition MAX_FILE_SIZE_MB :: nat where
  "MAX_FILE_SIZE_MB = 5"

definition ALLOWED_TYPES :: "string list" where
  "ALLOWED_TYPES = [''image/jpeg'', ''image/png'', ''image/webp'']"

text \<open>
  The component holds two pieces of state: \<^verbatim>\<open>state\<close> and the text of the prompt
  (\<^verbatim>\<open>prompt\<close> in the source; the field is named \<open>promptInput\<close> here, apart from the
  \<open>prompt\<close> of a generated image).
\<close>

record App =
  state :: AppState
  promptInput :: string

definition initialApp :: App where
  "initialApp =
     \<lparr>state = \<lparr>originalImage = None, originalMimeType = [], isGenerating = False,
               generatedImage = None, error = None\<rparr>,
      promptInput = []\<rparr>"

text \<open>An uploaded file: what the handler reads of it.\<close>

record File =
  fileType :: string
  fileSize :: nat

text \<open>A number spliced into a template literal, for a natural number.\<close>

fun decimal :: "nat \<Rightarrow> string" where
  "decimal n =
     (if n < 10 then [''0123456789'' ! n]
      else decimal (n div 10) @ [''0123456789'' ! (n mod 10)])"

declare decimal.simps [simp del]

text \<open>
  \<^verbatim>\<open>reader.readAsDataURL(file)\<close> ends in one of two ways. When the file is read,
  \<^verbatim>\<open>loadend\<close> fires with the data URL in \<^verbatim>\<open>reader.result\<close>. When the read fails,
  \<^verbatim>\<open>error\<close> fires, then \<^verbatim>\<open>loadend\<close> with \<^verbatim>\<open>reader.result\<close> null.
\<close>

datatype ReadOutcome = Loaded string | ReadFailed

text \<open>
  The two callbacks of the reader. \<^verbatim>\<open>onloadend\<close> tests the prompt of the render in
  which the upload was handled (\<open>seenPrompt\<close>) and replaces the whole \<^verbatim>\<open>state\<close>.
\<close>

definition onloadend :: "File \<Rightarrow> string option \<Rightarrow> string \<Rightarrow> App \<Rightarrow> App" where
  "onloadend file result seenPrompt app =
     \<lparr>state = \<lparr>originalImage = result, originalMimeType = fileType file,
               isGenerating = False, generatedImage = None, error = None\<rparr>,
      promptInput = (if seenPrompt = [] then ''Add a futuristic neon aesthetic''
                     else promptInput app)\<rparr>"

definition onerror :: "App \<Rightarrow> App" where
  "onerror app = app\<lparr>state := (state app)\<lparr>error := Some ''Failed to read file.''\<rparr>\<rparr>"

definition handleFileUpload :: "File option \<Rightarrow> ReadOutcome \<Rightarrow> App \<Rightarrow> App" where
  "handleFileUpload chosen outcome app =
     (case chosen of
        None \<Rightarrow> app
      | Some file \<Rightarrow>
          if fileType file \<notin> set ALLOWED_TYPES then
            app\<lparr>state := (state app)
              \<lparr>error := Some ''Invalid file type. Please upload JPEG, PNG, or WebP.''\<rparr>\<rparr>
          else if fileSize file > MAX_FILE_SIZE_MB * 1024 * 1024 then
            app\<lparr>state := (state app)
              \<lparr>error := Some (''File too large. Maximum size is '' @
                              decimal MAX_FILE_SIZE_MB @ ''MB.'')\<rparr>\<rparr>
          else
            (case outcome of
               Loaded result \<Rightarrow> onloadend file (Some result) (promptInput app) app
             | ReadFailed \<Rightarrow> onloadend file None (promptInput app) (onerror app)))"

text \<open>
  The three updates of \<^verbatim>\<open>state\<close> in \<^verbatim>\<open>handleGenerate\<close>, each of the form
  \<^verbatim>\<open>setState(prev => ({ ...prev, ... }))\<close>. They are inline in the source and are named
  here after the members of \<^verbatim>\<open>ImageActionType\<close> in \<^verbatim>\<open>types.ts\<close>.
\<close>

definition START_GENERATION :: "AppState \<Rightarrow> AppState" where
  "START_GENERATION prev = prev\<lparr>isGenerating := True, error := None\<rparr>"

definition SUCCESS_GENERATION :: "string \<Rightarrow> string \<Rightarrow> int \<Rightarrow> AppState \<Rightarrow> AppState" where
  "SUCCESS_GENERATION generatedImageBase64 instruction now prev =
     prev\<lparr>isGenerating := False,
          generatedImage := Some \<lparr>imageUrl = generatedImageBase64, prompt = instruction,
                                  timestamp = now\<rparr>\<rparr>"

definition FAIL_GENERATION :: "string \<Rightarrow> AppState \<Rightarrow> AppState" where
  "FAIL_GENERATION message prev =
     prev\<lparr>isGenerating := False,
          error := Some (orElse (Some message)
                           ''Something went wrong while generating the image.'')\<rparr>"

text \<open>
  \<^verbatim>\<open>handleGenerate\<close>, run to completion with no other event in between: the
  new component state and the requests sent to the API. \<open>now\<close> is what
  \<^verbatim>\<open>Date.now()\<close> returns when the call succeeds.
\<close>

definition handleGenerate :: "Api \<Rightarrow> int \<Rightarrow> App \<Rightarrow> App \<times> GenerateContentParameters list" where
  "handleGenerate generateContent now app =
     (case originalImage (state app) of
        None \<Rightarrow> (app, [])
      | Some original \<Rightarrow>
          if original = [] \<or> trim (promptInput app) = [] then (app, [])
          else
            (let started = START_GENERATION (state app);
                 base64Data = extractBase64Data original;
                 mime = originalMimeType (state app);
                 request = editRequest base64Data mime (promptInput app)
             in case editImageWithGemini generateContent base64Data mime (promptInput app) of
                  Inr generatedImageBase64 \<Rightarrow>
                    (app\<lparr>state := SUCCESS_GENERATION generatedImageBase64
                                     (promptInput app) now started\<rparr>,
                     [request])
                | Inl message \<Rightarrow>
                    (app\<lparr>state := FAIL_GENERATION message started\<rparr>, [request])))"

definition handleReset :: "App \<Rightarrow> App" where
  "handleReset app = initialApp"

subsection \<open>Sample sessions and API behaviours\<close>

text \<open>
  Concrete inputs for the examples below: a session with an uploaded PNG, the result of
  an earlier attempt and a prompt; an API that rejects the call; one that answers with a
  text part only; one that answers with a text part followed by an inline image without a
  mime type; and one that answers with an empty list of candidates.
\<close>

definition sampleSession :: App where
  "sampleSession =
     \<lparr>state = \<lparr>originalImage = Some ''data:image/png;base64,iVBORw0KGgo='',
               originalMimeType = ''image/png'', isGenerating = False,
               generatedImage = Some \<lparr>imageUrl = ''data:image/png;base64,AAAA'',
                                        prompt = ''Apply a vintage 80s retro style'',
                                        timestamp = 1700000000000\<rparr>,
               error = None\<rparr>,
      promptInput = ''Make it look like a pencil sketch''\<rparr>"

definition rejectingApi :: Api where
  "rejectingApi request = Rejected (Some ''Quota exceeded'')"

definition refusingApi :: Api where
  "refusingApi request =
     Resolved (Some \<lparr>candidates = Some
       [\<lparr>content = Some \<lparr>parts = Some
          [\<lparr>inlineData = None, text = Some ''I cannot edit this image.''\<rparr>]\<rparr>\<rparr>]\<rparr>)"

definition paintingApi :: Api where
  "paintingApi request =
     Resolved (Some \<lparr>candidates = Some
       [\<lparr>content = Some \<lparr>parts = Some
          [\<lparr>inlineData = None, text = Some ''Here is your sketch.''\<rparr>,
           \<lparr>inlineData = Some \<lparr>data = Some ''QUJD'', mimeType = None\<rparr>, text = None\<rparr>]\<rparr>\<rparr>]\<rparr>)"

definition emptyApi :: Api where
  "emptyApi request = Resolved (Some \<lparr>candidates = Some []\<rparr>)"

section \<open>Properties\<close>

subsection \<open>Splitting at commas\<close>

lemma split_not_Nil: "split sep s \<noteq> []"
  by (induction s) (auto split: list.splits)

lemma split_no_sep: "sep \<notin> set s \<Longrightarrow> split sep s = [s]"
  by (induction s) auto

lemma split_first_sep:
  "sep \<notin> set pre \<Longrightarrow> split sep (pre @ sep # rest) = pre # split sep rest"
  by (induction pre) auto

lemma split_hd_takeWhile:
  "split sep s = takeWhile (\<lambda>c. c \<noteq> sep) s #
     (case dropWhile (\<lambda>c. c \<noteq> sep) s of [] \<Rightarrow> [] | _ # rest \<Rightarrow> split sep rest)"
  by (induction s) (auto split: list.splits)

lemma index_1_split:
  "index (split sep s) 1 =
     (case dropWhile (\<lambda>c. c \<noteq> sep) s of
        [] \<Rightarrow> None
      | _ # rest \<Rightarrow> Some (takeWhile (\<lambda>c. c \<noteq> sep) rest))"
proof (cases "dropWhile (\<lambda>c. c \<noteq> sep) s")
  case Nil
  have "split sep s = [takeWhile (\<lambda>c. c \<noteq> sep) s]"
    by (simp only: split_hd_takeWhile [of sep s] Nil list.case)
  then show ?thesis
    by (simp only: Nil list.case index.simps One_nat_def)
next
  case (Cons d rest)
  have "split sep s = takeWhile (\<lambda>c. c \<noteq> sep) s # split sep rest"
    by (simp only: split_hd_takeWhile [of sep s] Cons list.case)
  moreover have "index (split sep rest) 0 = Some (takeWhile (\<lambda>c. c \<noteq> sep) rest)"
    by (subst split_hd_takeWhile) simp
  ultimately show ?thesis
    by (simp only: Cons list.case index.simps One_nat_def)
qed

lemma extractBase64Data_no_comma:
  "CHR '','' \<notin> set dataUrl \<Longrightarrow> extractBase64Data dataUrl = None"
  by (simp add: extractBase64Data_def split_no_sep)

lemma extractBase64Data_first_comma:
  assumes "CHR '','' \<notin> set pre"
  shows "extractBase64Data (pre @ CHR '','' # rest) = Some (takeWhile (\<lambda>c. c \<noteq> CHR '','') rest)"
proof -
  have "dropWhile (\<lambda>c. c \<noteq> CHR '','') (pre @ CHR '','' # rest) = CHR '','' # rest"
    using assms by (induction pre) auto
  then show ?thesis
    by (simp only: extractBase64Data_def index_1_split list.case)
qed

lemma extractBase64Data_one_comma:
  assumes "CHR '','' \<notin> set pre" and "CHR '','' \<notin> set rest"
  shows "extractBase64Data (pre @ CHR '','' # rest) = Some rest"
proof -
  have "takeWhile (\<lambda>c. c \<noteq> CHR '','') rest = rest"
    using assms(2) by (induction rest) auto
  with extractBase64Data_first_comma [OF assms(1)] show ?thesis
    by simp
qed

subsection \<open>What extractBase64Data returns\<close>

text \<open>
  Claim C2, as amended. The claim reads: for every input string, \<^verbatim>\<open>extractPayload\<close> returns
  the entire substring after the first comma. The code takes the second piece of the
  split at commas, which ends at the second comma. What holds: for an input with a comma,
  the result is the substring after the first comma up to, and without, the next comma;
  it is the entire substring after the first comma when that substring has no comma, as in
  every base64 data URL; and for an input without a comma the result is \<^verbatim>\<open>undefined\<close>.
\<close>

theorem extractBase64Data_piece_after_first_comma:
  "(CHR '','' \<notin> set pre \<longrightarrow>
      extractBase64Data (pre @ CHR '','' # rest) =
        Some (takeWhile (\<lambda>c. c \<noteq> CHR '','') rest)) \<and>
   (CHR '','' \<notin> set pre \<and> CHR '','' \<notin> set rest \<longrightarrow>
      extractBase64Data (pre @ CHR '','' # rest) = Some rest) \<and>
   (CHR '','' \<notin> set dataUrl \<longrightarrow> extractBase64Data dataUrl = None)"
  using extractBase64Data_first_comma [of pre rest] extractBase64Data_one_comma [of pre rest]
    extractBase64Data_no_comma [of dataUrl]
  by blast

theorem extractBase64Data_piece_after_first_comma_witness:
  "CHR '','' \<notin> set ''data:image/png;base64'' \<and> CHR '','' \<notin> set ''iVBORw0KGgo='' \<and>
   CHR '','' \<notin> set ''no comma here'' \<and>
   extractBase64Data ''data:image/png;base64,iVBORw0KGgo='' = Some ''iVBORw0KGgo='' \<and>
   extractBase64Data ''data:text/plain,a,b'' = Some ''a'' \<and>
   extractBase64Data ''no comma here'' = None"
  using extractBase64Data_piece_after_first_comma
    [of "''data:image/png;base64''" "''iVBORw0KGgo=''" "''no comma here''"]
    extractBase64Data_piece_after_first_comma
    [of "''data:text/plain''" "''a,b''" "''no comma here''"]
  by simp

text \<open>
  The claim as stated fails on a data URL whose payload has a comma: the result stops at
  the second comma.
\<close>

theorem extractBase64Data_stops_at_second_comma_counterexample:
  "extractBase64Data ''data:text/plain,a,b'' = Some ''a'' \<and>
   extractBase64Data ''data:text/plain,a,b'' \<noteq> Some ''a,b''"
  by (simp add: extractBase64Data_def)

subsection \<open>Round trip through the data URL\<close>

lemma comma_not_in_alphabet: "CHR '','' \<notin> set alphabet"
  by (simp add: alphabet_def)

lemma length_alphabet: "length alphabet = 64"
  by (simp add: alphabet_def)

lemma sextet_not_comma: "sextet n \<noteq> CHR '',''"
proof -
  have "sextet n \<in> set alphabet"
    unfolding sextet_def by (rule nth_mem) (simp add: length_alphabet)
  with comma_not_in_alphabet show ?thesis
    by metis
qed

lemma comma_not_in_base64: "CHR '','' \<notin> set (base64 bytes)"
  by (induction bytes rule: base64.induct)
     (simp_all add: Let_def sextet_not_comma [symmetric])

lemma comma_not_in_allowed_type: "mime \<in> set ALLOWED_TYPES \<Longrightarrow> CHR '','' \<notin> set mime"
  by (auto simp: ALLOWED_TYPES_def)

text \<open>
  Claim C8. For every byte sequence, extracting the payload of the data URL produced for
  it, \<^verbatim>\<open>data:<mimeType>;base64,<payload>\<close>, gives back the base64 encoding of the bytes:
  \<^verbatim>\<open>extractPayload(toDataUrl(bytes)) = base64(bytes)\<close>. The mime type is one without a
  comma, as the three accepted types are (\<open>comma_not_in_allowed_type\<close>).
\<close>

theorem extractBase64Data_toDataUrl:
  "CHR '','' \<notin> set mime \<Longrightarrow> extractBase64Data (toDataUrl mime bytes) = Some (base64 bytes)"
proof -
  assume "CHR '','' \<notin> set mime"
  then have "CHR '','' \<notin> set (''data:'' @ mime @ '';base64'')"
    by simp
  from extractBase64Data_one_comma [OF this comma_not_in_base64, of bytes]
  show ?thesis
    by (simp add: toDataUrl_def)
qed

theorem extractBase64Data_toDataUrl_witness:
  "CHR '','' \<notin> set ''image/png'' \<and>
   toDataUrl ''image/png'' [0x4D, 0x61, 0x6E, 0x21] = ''data:image/png;base64,TWFuIQ=='' \<and>
   extractBase64Data (toDataUrl ''image/png'' [0x4D, 0x61, 0x6E, 0x21]) = Some ''TWFuIQ==''"
proof -
  have enc: "base64 [0x4D, 0x61, 0x6E, 0x21] = ''TWFuIQ==''"
    by (simp add: sextet_def alphabet_def)
  have mime: "CHR '','' \<notin> set ''image/png''"
    by simp
  have url: "toDataUrl ''image/png'' [0x4D, 0x61, 0x6E, 0x21] = ''data:image/png;base64,TWFuIQ==''"
    by (simp add: toDataUrl_def enc del: base64.simps)
  have "extractBase64Data (toDataUrl ''image/png'' [0x4D, 0x61, 0x6E, 0x21]) =
        Some (base64 [0x4D, 0x61, 0x6E, 0x21])"
    using mime by (rule extractBase64Data_toDataUrl)
  then have "extractBase64Data (toDataUrl ''image/png'' [0x4D, 0x61, 0x6E, 0x21]) = Some ''TWFuIQ==''"
    by (simp only: enc)
  with mime url show ?thesis
    by blast
qed

subsection \<open>Uploading a file\<close>

lemma decimal_5: "decimal 5 = ''5''"
  by (simp add: decimal.simps)

lemma handleFileUpload_bad_type:
  "fileType file \<notin> set ALLOWED_TYPES \<Longrightarrow>
   handleFileUpload (Some file) outcome app =
     app\<lparr>state := (state app)
       \<lparr>error := Some ''Invalid file type. Please upload JPEG, PNG, or WebP.''\<rparr>\<rparr>"
  by (simp add: handleFileUpload_def)

lemma handleFileUpload_too_large:
  "fileType file \<in> set ALLOWED_TYPES \<Longrightarrow> fileSize file > 5 * 1024 * 1024 \<Longrightarrow>
   handleFileUpload (Some file) outcome app =
     app\<lparr>state := (state app)\<lparr>error := Some ''File too large. Maximum size is 5MB.''\<rparr>\<rparr>"
  by (simp add: handleFileUpload_def MAX_FILE_SIZE_MB_def decimal_5)

lemma handleFileUpload_accepted:
  "fileType file \<in> set ALLOWED_TYPES \<Longrightarrow> fileSize file \<le> 5 * 1024 * 1024 \<Longrightarrow>
   handleFileUpload (Some file) outcome app =
     (case outcome of
        Loaded result \<Rightarrow> onloadend file (Some result) (promptInput app) app
      | ReadFailed \<Rightarrow> onloadend file None (promptInput app) (onerror app))"
  by (simp add: handleFileUpload_def MAX_FILE_SIZE_MB_def)

text \<open>
  Claim C5, as amended. The claim reads: for every file whose type is not JPEG, PNG or
  WebP, and for every file larger than 5 MB, \<^verbatim>\<open>upload\<close> sets a non-empty error (a type
  error or a size-limit error respectively) and leaves the source image and the rest of the
  state unchanged. The type is checked first, so a file of a type that is not accepted
  gets the type error whatever its size. What holds: such a file gets the type error, an
  accepted type larger than 5 MB gets the size-limit error, and in both cases nothing but
  the error changes.
\<close>

theorem handleFileUpload_rejects:
  assumes "fileType file \<notin> set ALLOWED_TYPES \<or> fileSize file > 5 * 1024 * 1024"
  shows "handleFileUpload (Some file) outcome app =
           app\<lparr>state := (state app)
             \<lparr>error := Some (if fileType file \<notin> set ALLOWED_TYPES
                              then ''Invalid file type. Please upload JPEG, PNG, or WebP.''
                              else ''File too large. Maximum size is 5MB.'')\<rparr>\<rparr>
         \<and> originalImage (state (handleFileUpload (Some file) outcome app)) =
             originalImage (state app)
         \<and> originalMimeType (state (handleFileUpload (Some file) outcome app)) =
             originalMimeType (state app)"
proof (cases "fileType file \<in> set ALLOWED_TYPES")
  case True
  with assms have "fileSize file > 5 * 1024 * 1024"
    by blast
  with True show ?thesis
    by (simp add: handleFileUpload_too_large)
next
  case False
  then show ?thesis
    by (simp add: handleFileUpload_bad_type)
qed

theorem handleFileUpload_rejects_witness:
  "''image/webp'' \<in> set ALLOWED_TYPES \<and> (5242881 :: nat) > 5 * 1024 * 1024 \<and>
   ''text/html'' \<notin> set ALLOWED_TYPES \<and>
   handleFileUpload (Some \<lparr>fileType = ''image/webp'', fileSize = 5242881\<rparr>)
     (Loaded ''data:image/webp;base64,UklGRg=='') sampleSession =
     sampleSession\<lparr>state := (state sampleSession)
       \<lparr>error := Some ''File too large. Maximum size is 5MB.''\<rparr>\<rparr> \<and>
   handleFileUpload (Some \<lparr>fileType = ''text/html'', fileSize = 120\<rparr>)
     (Loaded ''data:text/html;base64,PGI+'') sampleSession =
     sampleSession\<lparr>state := (state sampleSession)
       \<lparr>error := Some ''Invalid file type. Please upload JPEG, PNG, or WebP.''\<rparr>\<rparr>"
  using handleFileUpload_rejects
      [of "\<lparr>fileType = ''image/webp'', fileSize = 5242881\<rparr>"
          "Loaded ''data:image/webp;base64,UklGRg==''" sampleSession]
    handleFileUpload_rejects
      [of "\<lparr>fileType = ''text/html'', fileSize = 120\<rparr>"
          "Loaded ''data:text/html;base64,PGI+''" sampleSession]
  by (simp add: ALLOWED_TYPES_def)

text \<open>
  The claim as stated fails on a PDF of 10 MB: it is larger than 5 MB, and the error is not
  the size-limit error.
\<close>

theorem handleFileUpload_oversized_pdf_counterexample:
  "fileSize \<lparr>fileType = ''application/pdf'', fileSize = 10485760\<rparr> > 5 * 1024 * 1024 \<and>
   error (state (handleFileUpload (Some \<lparr>fileType = ''application/pdf'', fileSize = 10485760\<rparr>)
                   (Loaded ''data:application/pdf;base64,JVBERi0='') sampleSession))
     \<noteq> Some ''File too large. Maximum size is 5MB.''"
  by (simp add: handleFileUpload_def ALLOWED_TYPES_def)

text \<open>
  Claim C10. A file that has a type that is not accepted and also exceeds 5 MB gets the
  invalid-file-type error: the type check comes before the size check, and the size-limit
  error is not shown for such a file.
\<close>

theorem handleFileUpload_type_check_first:
  "fileType file \<notin> set ALLOWED_TYPES \<Longrightarrow> fileSize file > 5 * 1024 * 1024 \<Longrightarrow>
   error (state (handleFileUpload (Some file) outcome app)) =
     Some ''Invalid file type. Please upload JPEG, PNG, or WebP.'' \<and>
   error (state (handleFileUpload (Some file) outcome app)) \<noteq>
     Some ''File too large. Maximum size is 5MB.''"
  by (simp add: handleFileUpload_bad_type)

theorem handleFileUpload_type_check_first_witness:
  "''image/gif'' \<notin> set ALLOWED_TYPES \<and> (6000000 :: nat) > 5 * 1024 * 1024 \<and>
   error (state (handleFileUpload (Some \<lparr>fileType = ''image/gif'', fileSize = 6000000\<rparr>)
                   (Loaded ''data:image/gif;base64,R0lGODlh'') initialApp)) =
     Some ''Invalid file type. Please upload JPEG, PNG, or WebP.''"
  using handleFileUpload_type_check_first
      [of "\<lparr>fileType = ''image/gif'', fileSize = 6000000\<rparr>"
          "Loaded ''data:image/gif;base64,R0lGODlh''" initialApp]
  by (simp add: ALLOWED_TYPES_def)

text \<open>
  Claim C6. For every file of an accepted type (JPEG, PNG or WebP) and of at most 5 MB
  whose read succeeds, after the upload the source image is populated, with the data URL
  read and the mime type of the file, and the error, the generated result and the
  in-flight flag are cleared.
\<close>

theorem handleFileUpload_valid:
  "fileType file \<in> set ALLOWED_TYPES \<Longrightarrow> fileSize file \<le> 5 * 1024 * 1024 \<Longrightarrow>
   state (handleFileUpload (Some file) (Loaded dataUrl) app) =
     \<lparr>originalImage = Some dataUrl, originalMimeType = fileType file,
      isGenerating = False, generatedImage = None, error = None\<rparr>"
  by (simp add: handleFileUpload_accepted onloadend_def)

theorem handleFileUpload_valid_witness:
  "''image/png'' \<in> set ALLOWED_TYPES \<and> (5242880 :: nat) \<le> 5 * 1024 * 1024 \<and>
   state (handleFileUpload (Some \<lparr>fileType = ''image/png'', fileSize = 5242880\<rparr>)
            (Loaded ''data:image/png;base64,iVBORw0KGgo='')
            (sampleSession\<lparr>state := (state sampleSession)
               \<lparr>isGenerating := True, error := Some ''Quota exceeded''\<rparr>\<rparr>)) =
     \<lparr>originalImage = Some ''data:image/png;base64,iVBORw0KGgo='',
      originalMimeType = ''image/png'', isGenerating = False, generatedImage = None,
      error = None\<rparr>"
  using handleFileUpload_valid
      [of "\<lparr>fileType = ''image/png'', fileSize = 5242880\<rparr>"
          "''data:image/png;base64,iVBORw0KGgo=''"
          "sampleSession\<lparr>state := (state sampleSession)
               \<lparr>isGenerating := True, error := Some ''Quota exceeded''\<rparr>\<rparr>"]
  by (simp add: ALLOWED_TYPES_def)

subsection \<open>The edit-request client\<close>

lemma generatedImageUrl_no_inline:
  "\<forall>p\<in>set ps. inlineData p = None \<Longrightarrow> generatedImageUrl ps = []"
  by (induction ps) auto

lemma generatedImageUrl_first_inline:
  "find (\<lambda>p. inlineData p \<noteq> None) ps = Some part \<Longrightarrow> inlineData part = Some blob \<Longrightarrow>
   generatedImageUrl ps =
     ''data:'' @ orElse (mimeType blob) ''image/png'' @ '';base64,'' @ spliced (data blob)"
  by (induction ps) (auto split: if_splits)

lemma tryBlock_first_candidate:
  assumes "candidates response = Some (candidate # others)" and "content candidate = Some c"
  shows "tryBlock (Resolved (Some response)) =
     (let url = (case parts c of None \<Rightarrow> [] | Some ps \<Rightarrow> generatedImageUrl ps)
      in if url = [] then
           (if truthy (textPart c)
            then Inl (Some (''Model returned text instead of image: '' @ spliced (textPart c)))
            else Inl (Some ''Model did not return a valid image.''))
         else Inr url)"
  using assms by (simp add: tryBlock_def)

lemma orElse_nonempty: "d \<noteq> [] \<Longrightarrow> orElse v d \<noteq> []"
  by (simp add: orElse_def split: option.splits)

lemma orElse_Some_nonempty: "s \<noteq> [] \<Longrightarrow> orElse (Some s) d = s"
  by (simp add: orElse_def)

lemma editImageWithGemini_message_nonempty:
  "editImageWithGemini api base64Image mime instruction = Inl message \<Longrightarrow> message \<noteq> []"
  by (auto simp: editImageWithGemini_def orElse_nonempty split: sum.splits)

subsection \<open>Generating\<close>

lemma handleGenerate_runs:
  assumes "originalImage (state app) = Some original" and "original \<noteq> []"
    and "trim (promptInput app) \<noteq> []"
  shows "handleGenerate api now app =
     (case editImageWithGemini api (extractBase64Data original) (originalMimeType (state app))
             (promptInput app) of
        Inr url \<Rightarrow>
          (app\<lparr>state := SUCCESS_GENERATION url (promptInput app) now
                           (START_GENERATION (state app))\<rparr>,
           [editRequest (extractBase64Data original) (originalMimeType (state app))
              (promptInput app)])
      | Inl message \<Rightarrow>
          (app\<lparr>state := FAIL_GENERATION message (START_GENERATION (state app))\<rparr>,
           [editRequest (extractBase64Data original) (originalMimeType (state app))
              (promptInput app)]))"
  using assms by (simp add: handleGenerate_def Let_def)

lemma handleGenerate_failed:
  assumes "originalImage (state app) = Some original" and "original \<noteq> []"
    and "trim (promptInput app) \<noteq> []"
    and "editImageWithGemini api (extractBase64Data original) (originalMimeType (state app))
           (promptInput app) = Inl message"
  shows "state (fst (handleGenerate api now app)) =
           (state app)\<lparr>isGenerating := False, error := Some message\<rparr>"
proof -
  have "message \<noteq> []"
    using assms(4) by (rule editImageWithGemini_message_nonempty)
  then have "FAIL_GENERATION message (START_GENERATION (state app)) =
             (state app)\<lparr>isGenerating := False, error := Some message\<rparr>"
    by (simp add: FAIL_GENERATION_def START_GENERATION_def orElse_Some_nonempty)
  then show ?thesis
    by (simp add: handleGenerate_runs [OF assms(1-3)] assms(4))
qed

lemma handleGenerate_succeeded:
  assumes "originalImage (state app) = Some original" and "original \<noteq> []"
    and "trim (promptInput app) \<noteq> []"
    and "editImageWithGemini api (extractBase64Data original) (originalMimeType (state app))
           (promptInput app) = Inr url"
  shows "state (fst (handleGenerate api now app)) =
           (state app)\<lparr>isGenerating := False, error := None,
             generatedImage := Some \<lparr>imageUrl = url, prompt = promptInput app,
                                     timestamp = now\<rparr>\<rparr>"
  by (simp add: handleGenerate_runs [OF assms(1-3)] assms(4) SUCCESS_GENERATION_def
      START_GENERATION_def)

lemma sampleSession_ready:
  "originalImage (state sampleSession) = Some ''data:image/png;base64,iVBORw0KGgo=''"
  "''data:image/png;base64,iVBORw0KGgo='' \<noteq> []"
  "trim (promptInput sampleSession) \<noteq> []"
  by (simp_all add: sampleSession_def trim_def isWhiteSpace_def)

lemma sampleSession_payload:
  "extractBase64Data ''data:image/png;base64,iVBORw0KGgo='' = Some ''iVBORw0KGgo=''"
  by (simp add: extractBase64Data_def)

lemma rejectingApi_fails:
  "editImageWithGemini rejectingApi base64Image mime instruction = Inl ''Quota exceeded''"
  by (simp add: editImageWithGemini_def rejectingApi_def tryBlock_def orElse_def)

text \<open>
  Claim C9. For every state in which the source image is absent or the prompt trims to the
  empty string, \<^verbatim>\<open>generate\<close> is a no-op: the state is unchanged and no request is issued.
\<close>

theorem handleGenerate_noop:
  "originalImage (state app) = None \<or> trim (promptInput app) = [] \<Longrightarrow>
   handleGenerate api now app = (app, [])"
  by (auto simp: handleGenerate_def split: option.splits)

theorem handleGenerate_noop_witness:
  "trim (promptInput (sampleSession\<lparr>promptInput := [CHR '' '', CHR 0x09, CHR 0x0A]\<rparr>)) = [] \<and>
   handleGenerate paintingApi 1700000060000
     (sampleSession\<lparr>promptInput := [CHR '' '', CHR 0x09, CHR 0x0A]\<rparr>) =
     (sampleSession\<lparr>promptInput := [CHR '' '', CHR 0x09, CHR 0x0A]\<rparr>, []) \<and>
   originalImage (state initialApp) = None \<and>
   handleGenerate paintingApi 1700000060000 initialApp = (initialApp, [])"
proof -
  have blank: "trim (promptInput (sampleSession\<lparr>promptInput := [CHR '' '', CHR 0x09, CHR 0x0A]\<rparr>)) = []"
    by (simp add: trim_def isWhiteSpace_def)
  have absent: "originalImage (state initialApp) = None"
    by (simp add: initialApp_def)
  from blank absent
    handleGenerate_noop [of "sampleSession\<lparr>promptInput := [CHR '' '', CHR 0x09, CHR 0x0A]\<rparr>"
      paintingApi 1700000060000]
    handleGenerate_noop [of initialApp paintingApi 1700000060000]
  show ?thesis
    by blast
qed

text \<open>
  Claim C7. Whenever a generate attempt fails, for any error raised by the edit-request
  client, the resulting state has the in-flight flag cleared and the error message
  populated (with the client's message, which is never empty), and the source image and its
  mime type are as before, so that the user may retry.
\<close>

theorem handleGenerate_failure_keeps_image:
  assumes "originalImage (state app) = Some original" and "original \<noteq> []"
    and "trim (promptInput app) \<noteq> []"
    and "editImageWithGemini api (extractBase64Data original) (originalMimeType (state app))
           (promptInput app) = Inl message"
  shows "isGenerating (state (fst (handleGenerate api now app))) = False \<and>
         error (state (fst (handleGenerate api now app))) = Some message \<and>
         message \<noteq> [] \<and>
         originalImage (state (fst (handleGenerate api now app))) = originalImage (state app) \<and>
         originalMimeType (state (fst (handleGenerate api now app))) =
           originalMimeType (state app)"
  using editImageWithGemini_message_nonempty [OF assms(4)]
  by (simp add: handleGenerate_failed [OF assms])

theorem handleGenerate_failure_keeps_image_witness:
  "originalImage (state sampleSession) = Some ''data:image/png;base64,iVBORw0KGgo='' \<and>
   trim (promptInput sampleSession) \<noteq> [] \<and>
   editImageWithGemini rejectingApi (Some ''iVBORw0KGgo='') ''image/png''
     ''Make it look like a pencil sketch'' = Inl ''Quota exceeded'' \<and>
   isGenerating (state (fst (handleGenerate rejectingApi 1700000060000 sampleSession))) = False \<and>
   error (state (fst (handleGenerate rejectingApi 1700000060000 sampleSession))) =
     Some ''Quota exceeded'' \<and>
   originalImage (state (fst (handleGenerate rejectingApi 1700000060000 sampleSession))) =
     Some ''data:image/png;base64,iVBORw0KGgo='' \<and>
   originalMimeType (state (fst (handleGenerate rejectingApi 1700000060000 sampleSession))) =
     ''image/png''"
proof -
  have fails: "editImageWithGemini rejectingApi (extractBase64Data ''data:image/png;base64,iVBORw0KGgo='')
      (originalMimeType (state sampleSession)) (promptInput sampleSession) = Inl ''Quota exceeded''"
    by (simp add: editImageWithGemini_def rejectingApi_def tryBlock_def orElse_def)
  from handleGenerate_failure_keeps_image [OF sampleSession_ready fails, of 1700000060000] fails
    sampleSession_ready(1,3)
  show ?thesis
    by (simp add: sampleSession_payload) (simp add: sampleSession_def)
qed

lemma tryBlock_no_candidates:
  assumes "(case reply of
              None \<Rightarrow> []
            | Some response \<Rightarrow> (case candidates response of None \<Rightarrow> [] | Some cs \<Rightarrow> cs)) = []"
  shows "tryBlock (Resolved reply) = Inl (Some ''No response candidates returned from Gemini.'')"
  using assms by (auto simp: tryBlock_def split: option.splits list.splits)

lemma tryBlock_without_image_part:
  assumes "candidates response = Some (candidate # others)"
    and "content candidate = Some c"
    and "parts c = Some ps \<or> parts c = None \<and> ps = []"
    and "\<forall>p\<in>set ps. inlineData p = None"
  shows "tryBlock (Resolved (Some response)) =
     Inl (Some (case find (\<lambda>p. truthy (text p)) ps of
                  Some p \<Rightarrow> ''Model returned text instead of image: '' @ spliced (text p)
                | None \<Rightarrow> ''Model did not return a valid image.''))"
proof -
  have "generatedImageUrl ps = []"
    using assms(4) by (rule generatedImageUrl_no_inline)
  with assms(3) have url: "(case parts c of None \<Rightarrow> [] | Some ps \<Rightarrow> generatedImageUrl ps) = []"
    by auto
  have found: "textPart c =
      (case find (\<lambda>p. truthy (text p)) ps of None \<Rightarrow> None | Some p \<Rightarrow> text p)"
    using assms(3) by (auto simp: textPart_def)
  show ?thesis
  proof (cases "find (\<lambda>p. truthy (text p)) ps")
    case None
    with found url show ?thesis
      by (simp add: tryBlock_first_candidate [OF assms(1,2)] truthy_def)
  next
    case (Some p)
    then have "truthy (text p)"
      by (auto simp: find_Some_iff)
    with found url Some show ?thesis
      by (simp add: tryBlock_first_candidate [OF assms(1,2)])
  qed
qed

lemma emptyApi_fails:
  "editImageWithGemini emptyApi base64Image mime instruction =
     Inl ''No response candidates returned from Gemini.''"
  by (simp add: editImageWithGemini_def emptyApi_def tryBlock_def orElse_def)

text \<open>
  Claim C3, as amended. The claim reads: when the API response contains no inline-image
  part, \<^verbatim>\<open>editImage\<close> fails, with \<^verbatim>\<open>Model returned text instead of image: <text>\<close> if
  a text part exists and with a no-image-returned error otherwise, and \<^verbatim>\<open>generate\<close> has
  exactly that message as the error of the state. A response that is absent or has no
  candidate has no inline-image part and no text part, and the code answers it from a
  guard of its own, with another message. What holds, with \<open>cs\<close> the candidates of the
  response (none when the response or the list is absent): when there is no candidate, the
  error message is \<^verbatim>\<open>No response candidates returned from Gemini.\<close>; when the content of
  the first candidate has no inline-image part, it is
  \<^verbatim>\<open>Model returned text instead of image: <text>\<close> with the text of the first text part (a
  part whose text is a non-empty string, which is what the code tests) if there is one, and
  \<^verbatim>\<open>Model did not return a valid image.\<close> otherwise. In each case \<^verbatim>\<open>generate\<close> has
  exactly that message as the error of the state. A first candidate without content is
  left out.
\<close>

theorem editImage_without_image_part:
  assumes "api (editRequest base64Image mime instruction) = Resolved reply"
    and "cs = (case reply of
                 None \<Rightarrow> []
               | Some response \<Rightarrow> (case candidates response of None \<Rightarrow> [] | Some l \<Rightarrow> l))"
    and "cs = [] \<or>
         cs = candidate # others \<and> content candidate = Some c \<and>
         (parts c = Some ps \<or> parts c = None \<and> ps = []) \<and>
         (\<forall>p\<in>set ps. inlineData p = None)"
  shows "let message =
           (if cs = [] then ''No response candidates returned from Gemini.''
            else case find (\<lambda>p. truthy (text p)) ps of
                   Some p \<Rightarrow> ''Model returned text instead of image: '' @ spliced (text p)
                 | None \<Rightarrow> ''Model did not return a valid image.'')
         in editImageWithGemini api base64Image mime instruction = Inl message \<and>
            (originalImage (state app) = Some original \<and> original \<noteq> [] \<and>
             trim (promptInput app) \<noteq> [] \<and> base64Image = extractBase64Data original \<and>
             mime = originalMimeType (state app) \<and> instruction = promptInput app \<longrightarrow>
             error (state (fst (handleGenerate api now app))) = Some message)"
proof -
  define message where "message =
    (if cs = [] then ''No response candidates returned from Gemini.''
     else case find (\<lambda>p. truthy (text p)) ps of
            Some p \<Rightarrow> ''Model returned text instead of image: '' @ spliced (text p)
          | None \<Rightarrow> ''Model did not return a valid image.'')"
  have thrown: "tryBlock (Resolved reply) = Inl (Some message)"
  proof (cases "cs = []")
    case True
    with assms(2) have "tryBlock (Resolved reply) =
        Inl (Some ''No response candidates returned from Gemini.'')"
      by (intro tryBlock_no_candidates) simp
    with True show ?thesis
      by (simp add: message_def)
  next
    case False
    with assms(3) have scan: "cs = candidate # others" "content candidate = Some c"
      "parts c = Some ps \<or> parts c = None \<and> ps = []" "\<forall>p\<in>set ps. inlineData p = None"
      by blast+
    from assms(2) scan(1) obtain response where response: "reply = Some response"
      "candidates response = Some (candidate # others)"
      by (auto split: option.splits)
    from tryBlock_without_image_part [OF response(2) scan(2-4)] False response(1)
    show ?thesis
      by (simp add: message_def)
  qed
  have "message \<noteq> []"
    by (simp add: message_def split: option.splits)
  with thrown have failed: "editImageWithGemini api base64Image mime instruction = Inl message"
    by (simp add: editImageWithGemini_def assms(1) orElse_Some_nonempty)
  have "error (state (fst (handleGenerate api now app))) = Some message"
    if "originalImage (state app) = Some original" and "original \<noteq> []"
      and "trim (promptInput app) \<noteq> []" and "base64Image = extractBase64Data original"
      and "mime = originalMimeType (state app)" and "instruction = promptInput app"
    using handleGenerate_failed [OF that(1-3), of api message now] failed that(4-6)
    by simp
  with failed show ?thesis
    unfolding Let_def message_def by blast
qed

theorem editImage_without_image_part_witness:
  "editImageWithGemini refusingApi (Some ''iVBORw0KGgo='') ''image/png''
     ''Make it look like a pencil sketch'' =
     Inl ''Model returned text instead of image: I cannot edit this image.'' \<and>
   error (state (fst (handleGenerate refusingApi 1700000060000 sampleSession))) =
     Some ''Model returned text instead of image: I cannot edit this image.'' \<and>
   editImageWithGemini emptyApi (Some ''iVBORw0KGgo='') ''image/png''
     ''Make it look like a pencil sketch'' =
     Inl ''No response candidates returned from Gemini.'' \<and>
   error (state (fst (handleGenerate emptyApi 1700000060000 sampleSession))) =
     Some ''No response candidates returned from Gemini.''"
proof -
  define ps where "ps = [\<lparr>inlineData = None, text = Some ''I cannot edit this image.''\<rparr>]"
  define c where "c = \<lparr>parts = Some ps\<rparr>"
  define candidate where "candidate = \<lparr>content = Some c\<rparr>"
  define response where "response = \<lparr>candidates = Some [candidate]\<rparr>"
  have answer: "refusingApi (editRequest (Some ''iVBORw0KGgo='') ''image/png''
      ''Make it look like a pencil sketch'') = Resolved (Some response)"
    by (simp add: refusingApi_def response_def candidate_def c_def ps_def)
  have listed: "[candidate] =
      (case Some response of
         None \<Rightarrow> []
       | Some response \<Rightarrow> (case candidates response of None \<Rightarrow> [] | Some l \<Rightarrow> l))"
    by (simp add: response_def)
  have shape: "[candidate] = [] \<or>
      [candidate] = candidate # [] \<and> content candidate = Some c \<and>
      (parts c = Some ps \<or> parts c = None \<and> ps = []) \<and>
      (\<forall>p\<in>set ps. inlineData p = None)"
    by (simp add: candidate_def c_def ps_def)
  have found: "find (\<lambda>p. truthy (text p)) ps =
      Some \<lparr>inlineData = None, text = Some ''I cannot edit this image.''\<rparr>"
    by (simp add: ps_def truthy_def)
  have silent: "emptyApi (editRequest (Some ''iVBORw0KGgo='') ''image/png''
      ''Make it look like a pencil sketch'') = Resolved (Some \<lparr>candidates = Some []\<rparr>)"
    by (simp add: emptyApi_def)
  have none_listed: "[] =
      (case Some \<lparr>candidates = Some []\<rparr> of
         None \<Rightarrow> []
       | Some response \<Rightarrow> (case candidates response of None \<Rightarrow> [] | Some l \<Rightarrow> l))"
    by simp
  have no_shape: "([] :: Candidate list) = [] \<or>
      [] = candidate # [] \<and> content candidate = Some c \<and>
      (parts c = Some ps \<or> parts c = None \<and> ps = []) \<and>
      (\<forall>p\<in>set ps. inlineData p = None)"
    by simp
  have args: "Some ''iVBORw0KGgo='' = extractBase64Data ''data:image/png;base64,iVBORw0KGgo=''"
    "''image/png'' = originalMimeType (state sampleSession)"
    "''Make it look like a pencil sketch'' = promptInput sampleSession"
    by (simp_all add: sampleSession_payload) (simp_all add: sampleSession_def)
  from editImage_without_image_part
      [where api = refusingApi and base64Image = "Some ''iVBORw0KGgo=''"
         and mime = "''image/png''" and instruction = "''Make it look like a pencil sketch''"
         and app = sampleSession and original = "''data:image/png;base64,iVBORw0KGgo=''"
         and now = 1700000060000, OF answer listed shape]
    editImage_without_image_part
      [where api = emptyApi and base64Image = "Some ''iVBORw0KGgo=''"
         and mime = "''image/png''" and instruction = "''Make it look like a pencil sketch''"
         and app = sampleSession and original = "''data:image/png;base64,iVBORw0KGgo=''"
         and now = 1700000060000, OF silent none_listed no_shape]
    sampleSession_ready args
  show ?thesis
    by (simp add: Let_def found spliced_def)
qed

text \<open>
  The claim as stated fails on a response with an empty list of candidates: it has no
  inline-image part and no text part, and the error is not the no-image-returned error.
\<close>

theorem editImage_no_candidates_counterexample:
  "emptyApi (editRequest (Some ''iVBORw0KGgo='') ''image/png''
     ''Make it look like a pencil sketch'') = Resolved (Some \<lparr>candidates = Some []\<rparr>) \<and>
   editImageWithGemini emptyApi (Some ''iVBORw0KGgo='') ''image/png''
     ''Make it look like a pencil sketch'' \<noteq> Inl ''Model did not return a valid image.'' \<and>
   error (state (fst (handleGenerate emptyApi 1700000060000 sampleSession))) =
     Some ''No response candidates returned from Gemini.'' \<and>
   error (state (fst (handleGenerate emptyApi 1700000060000 sampleSession))) \<noteq>
     Some ''Model did not return a valid image.''"
proof -
  have "state (fst (handleGenerate emptyApi 1700000060000 sampleSession)) =
          (state sampleSession)
            \<lparr>isGenerating := False,
             error := Some ''No response candidates returned from Gemini.''\<rparr>"
    using sampleSession_ready emptyApi_fails by (rule handleGenerate_failed)
  then show ?thesis
    by (simp add: emptyApi_fails emptyApi_def)
qed

text \<open>
  Claim C4. When the response, in the content of its first candidate, has an inline-image
  part, \<^verbatim>\<open>editImage\<close> returns the data URL built from the first such part,
  \<^verbatim>\<open>data:<mimeType>;base64,<payload>\<close>, with \<^verbatim>\<open>image/png\<close> for the mime type when the
  response omits it (or has it empty). \<^verbatim>\<open>generate\<close> then stores a generated image whose
  \<^verbatim>\<open>imageUrl\<close> is that data URL and whose prompt is the input prompt.
\<close>

theorem editImage_with_image_part:
  assumes "api (editRequest base64Image mime instruction) = Resolved (Some response)"
    and "candidates response = Some (candidate # others)"
    and "content candidate = Some c"
    and "parts c = Some ps"
    and "find (\<lambda>p. inlineData p \<noteq> None) ps = Some part"
    and "inlineData part = Some blob"
  shows "let url = ''data:'' @
                   (case mimeType blob of
                      None \<Rightarrow> ''image/png''
                    | Some responseMime \<Rightarrow>
                        if responseMime = [] then ''image/png'' else responseMime) @
                   '';base64,'' @ spliced (data blob)
         in editImageWithGemini api base64Image mime instruction = Inr url \<and>
            (originalImage (state app) = Some original \<and> original \<noteq> [] \<and>
             trim (promptInput app) \<noteq> [] \<and> base64Image = extractBase64Data original \<and>
             mime = originalMimeType (state app) \<and> instruction = promptInput app \<longrightarrow>
             generatedImage (state (fst (handleGenerate api now app))) =
               Some \<lparr>imageUrl = url, prompt = instruction, timestamp = now\<rparr>)"
proof -
  define url where "url = ''data:'' @ orElse (mimeType blob) ''image/png'' @
    '';base64,'' @ spliced (data blob)"
  have scan: "generatedImageUrl ps = url"
    unfolding url_def using assms(5,6) by (rule generatedImageUrl_first_inline)
  have "url \<noteq> []"
    by (simp add: url_def)
  with scan have "tryBlock (Resolved (Some response)) = Inr url"
    using assms(4) by (simp add: tryBlock_first_candidate [OF assms(2,3)])
  then have returned: "editImageWithGemini api base64Image mime instruction = Inr url"
    by (simp add: editImageWithGemini_def assms(1))
  have "generatedImage (state (fst (handleGenerate api now app))) =
          Some \<lparr>imageUrl = url, prompt = instruction, timestamp = now\<rparr>"
    if "originalImage (state app) = Some original" and "original \<noteq> []"
      and "trim (promptInput app) \<noteq> []" and "base64Image = extractBase64Data original"
      and "mime = originalMimeType (state app)" and "instruction = promptInput app"
    using handleGenerate_succeeded [OF that(1-3), of api url now] returned that(4-6)
    by simp
  with returned show ?thesis
    unfolding Let_def url_def orElse_def by blast
qed

theorem editImage_with_image_part_witness:
  "editImageWithGemini paintingApi (Some ''iVBORw0KGgo='') ''image/png''
     ''Make it look like a pencil sketch'' = Inr ''data:image/png;base64,QUJD'' \<and>
   generatedImage (state (fst (handleGenerate paintingApi 1700000060000 sampleSession))) =
     Some \<lparr>imageUrl = ''data:image/png;base64,QUJD'',
           prompt = ''Make it look like a pencil sketch'', timestamp = 1700000060000\<rparr>"
proof -
  define blob where "blob = \<lparr>data = Some ''QUJD'', mimeType = None\<rparr>"
  define part where "part = \<lparr>inlineData = Some blob, text = None\<rparr>"
  define ps where "ps = [\<lparr>inlineData = None, text = Some ''Here is your sketch.''\<rparr>, part]"
  define c where "c = \<lparr>parts = Some ps\<rparr>"
  define candidate where "candidate = \<lparr>content = Some c\<rparr>"
  define response where "response = \<lparr>candidates = Some [candidate]\<rparr>"
  have answer: "paintingApi (editRequest (Some ''iVBORw0KGgo='') ''image/png''
      ''Make it look like a pencil sketch'') = Resolved (Some response)"
    by (simp add: paintingApi_def response_def candidate_def c_def ps_def part_def blob_def)
  have shape: "candidates response = Some (candidate # [])" "content candidate = Some c"
    "parts c = Some ps" "find (\<lambda>p. inlineData p \<noteq> None) ps = Some part"
    "inlineData part = Some blob"
    by (simp_all add: response_def candidate_def c_def ps_def part_def)
  have args: "Some ''iVBORw0KGgo='' = extractBase64Data ''data:image/png;base64,iVBORw0KGgo=''"
    "''image/png'' = originalMimeType (state sampleSession)"
    "''Make it look like a pencil sketch'' = promptInput sampleSession"
    by (simp_all add: sampleSession_payload) (simp_all add: sampleSession_def)
  from editImage_with_image_part
      [where api = paintingApi and base64Image = "Some ''iVBORw0KGgo=''"
         and mime = "''image/png''" and instruction = "''Make it look like a pencil sketch''"
         and app = sampleSession and original = "''data:image/png;base64,iVBORw0KGgo=''"
         and now = 1700000060000, OF answer shape]
    sampleSession_ready args
  show ?thesis
    by (simp add: Let_def blob_def spliced_def)
qed

text \<open>
  Claim C1, as amended. The claim reads: every new generate attempt clears both the error
  and the prior generated result before starting, so that after any completed attempt at
  most one of them is set. The code clears the error only. What holds: a new attempt clears
  the error before starting and keeps the prior result; after a completed attempt that
  succeeded the error is absent and the result is the new one; after one that failed the
  error is set and the result is the one held before the attempt. So at most one of the two
  is set after a completed attempt that succeeded, or that started with no result.
\<close>

theorem handleGenerate_error_and_result:
  assumes "originalImage (state app) = Some original" and "original \<noteq> []"
    and "trim (promptInput app) \<noteq> []"
  shows "error (START_GENERATION (state app)) = None \<and>
         generatedImage (START_GENERATION (state app)) = generatedImage (state app) \<and>
         (case editImageWithGemini api (extractBase64Data original)
                 (originalMimeType (state app)) (promptInput app) of
            Inr url \<Rightarrow>
              error (state (fst (handleGenerate api now app))) = None \<and>
              generatedImage (state (fst (handleGenerate api now app))) =
                Some \<lparr>imageUrl = url, prompt = promptInput app, timestamp = now\<rparr>
          | Inl message \<Rightarrow>
              error (state (fst (handleGenerate api now app))) = Some message \<and>
              generatedImage (state (fst (handleGenerate api now app))) =
                generatedImage (state app)) \<and>
         (generatedImage (state app) = None \<longrightarrow>
            error (state (fst (handleGenerate api now app))) = None \<or>
            generatedImage (state (fst (handleGenerate api now app))) = None)"
proof (cases "editImageWithGemini api (extractBase64Data original)
                (originalMimeType (state app)) (promptInput app)")
  case (Inl message)
  from handleGenerate_failed [OF assms Inl, of now] Inl show ?thesis
    by (simp add: START_GENERATION_def)
next
  case (Inr url)
  from handleGenerate_succeeded [OF assms Inr, of now] Inr show ?thesis
    by (simp add: START_GENERATION_def)
qed

theorem handleGenerate_error_and_result_witness:
  "originalImage (state sampleSession) = Some ''data:image/png;base64,iVBORw0KGgo='' \<and>
   trim (promptInput sampleSession) \<noteq> [] \<and>
   error (state (fst (handleGenerate paintingApi 1700000060000 sampleSession))) = None \<and>
   generatedImage (state (fst (handleGenerate paintingApi 1700000060000 sampleSession))) =
     Some \<lparr>imageUrl = ''data:image/png;base64,QUJD'',
           prompt = ''Make it look like a pencil sketch'', timestamp = 1700000060000\<rparr>"
proof -
  have returned: "editImageWithGemini paintingApi
      (extractBase64Data ''data:image/png;base64,iVBORw0KGgo='')
      (originalMimeType (state sampleSession)) ''Make it look like a pencil sketch'' =
      Inr ''data:image/png;base64,QUJD''"
    by (simp add: editImageWithGemini_def paintingApi_def tryBlock_def orElse_def spliced_def)
  have asked: "promptInput sampleSession = ''Make it look like a pencil sketch''"
    by (simp add: sampleSession_def)
  from handleGenerate_error_and_result [OF sampleSession_ready, of paintingApi 1700000060000]
    sampleSession_ready(1,3)
  show ?thesis
    by (simp add: returned asked)
qed

text \<open>
  The claim as stated fails on a session that holds the result of an earlier attempt: the
  start of the new attempt keeps that result, and when the API rejects the call both the
  error and the old result are set.
\<close>

theorem handleGenerate_failure_keeps_old_result_counterexample:
  "generatedImage (START_GENERATION (state sampleSession)) \<noteq> None \<and>
   error (state (fst (handleGenerate rejectingApi 1700000060000 sampleSession))) =
     Some ''Quota exceeded'' \<and>
   generatedImage (state (fst (handleGenerate rejectingApi 1700000060000 sampleSession))) =
     Some \<lparr>imageUrl = ''data:image/png;base64,AAAA'',
           prompt = ''Apply a vintage 80s retro style'', timestamp = 1700000000000\<rparr>"
proof -
  have "state (fst (handleGenerate rejectingApi 1700000060000 sampleSession)) =
          (state sampleSession)\<lparr>isGenerating := False, error := Some ''Quota exceeded''\<rparr>"
    using sampleSession_ready rejectingApi_fails by (rule handleGenerate_failed)
  then show ?thesis
    by (simp add: START_GENERATION_def sampleSession_def)
qed

end
